theory Spec2Isabelle
  imports Main "HOL-Library.AList"
begin

section \<open>Data model\<close>

text \<open>
  The build orchestration of \<^verbatim>\<open>builder/builder.go\<close>. The solution and project
  models, the two command types and the helper predicates live in other packages; what
  the builder reads of them is modelled below, field by field.
\<close>

text \<open>Modelled from the spec: \<^verbatim>\<open>constants.ProjectType\<close>, the enumerated project type
  (iOS, tvOS, macOS, Android, or Unknown).\<close>

datatype ProjectType =
    ProjectTypeUnknown
  | ProjectTypeIOS
  | ProjectTypeTvOS
  | ProjectTypeMacOS
  | ProjectTypeAndroid

text \<open>Modelled from the spec: \<^verbatim>\<open>constants.OutputType\<close>, the artifact kinds that
  \<^verbatim>\<open>CollectOutput\<close> stores.\<close>

datatype OutputType =
    OutputTypeXCArchive
  | OutputTypeIPA
  | OutputTypeDSYM
  | OutputTypeAPP
  | OutputTypePKG
  | OutputTypeAPK

datatype error = Error string

text \<open>The project configuration, with the fields the builder reads.\<close>

record ProjectConfig =
  Configuration :: string
  Platform :: string
  OutputDir :: string
  MtouchArchs :: "string list"
  SignAndroid :: bool

text \<open>\<^verbatim>\<open>project.Model\<close>, with the fields the builder reads. \<open>ConfigMap\<close> maps a
  solution configuration key to a project configuration key, \<open>Configs\<close> maps that key to
  the project configuration.\<close>

record project_Model =
  Name :: string
  Pth :: string
  ProjectType :: ProjectType
  OutputType :: string
  AssemblyName :: string
  ManifestPth :: string
  AndroidApplication :: bool
  ConfigMap :: "string \<rightharpoonup> string"
  Configs :: "string \<rightharpoonup> ProjectConfig"

text \<open>\<^verbatim>\<open>solution.Model\<close>. \<open>ProjectMap\<close> is a Go map from project id to project; the
  list gives its entries in the order in which one \<^verbatim>\<open>range\<close> loop visits them.\<close>

record solution_Model =
  solution_Pth :: string
  ProjectMap :: "(string \<times> project_Model) list"

text \<open>The builder itself (\<^verbatim>\<open>builder.Model\<close>).\<close>

record Model =
  solution :: solution_Model
  projectTypeWhitelist :: "ProjectType list"
  forceMDTool :: bool

subsection \<open>Build commands\<close>

text \<open>Modelled from the spec: the two command types \<^verbatim>\<open>mdtool.Model\<close> and
  \<^verbatim>\<open>xbuild.Model\<close> behind the interface \<^verbatim>\<open>buildtool.RunnableCommand\<close>. A command
  records the path it was created with and what each setter call of the builder stored; a
  field whose setter was not called is \<open>None\<close> (or \<open>False\<close> for a flag). The custom
  options are the extra arguments that a preparation hook may add.\<close>

record mdtool_Model =
  md_solutionPth :: string
  md_target :: "string option"
  md_configuration :: "string option"
  md_platform :: "string option"
  md_projectName :: "string option"
  md_customOptions :: "string list"

record xbuild_Model =
  xb_projectPth :: string
  xb_target :: "string option"
  xb_configuration :: "string option"
  xb_platform :: "string option"
  xb_buildIpa :: bool
  xb_archiveOnBuild :: bool
  xb_customOptions :: "string list"

datatype RunnableCommand = MDTool mdtool_Model | XBuild xbuild_Model

definition mdtool_New :: "string \<Rightarrow> mdtool_Model" where
  "mdtool_New solutionPth =
     \<lparr>md_solutionPth = solutionPth, md_target = None, md_configuration = None,
      md_platform = None, md_projectName = None, md_customOptions = []\<rparr>"

definition mdtool_SetTarget :: "string \<Rightarrow> mdtool_Model \<Rightarrow> mdtool_Model" where
  "mdtool_SetTarget t command = command\<lparr>md_target := Some t\<rparr>"

definition mdtool_SetConfiguration :: "string \<Rightarrow> mdtool_Model \<Rightarrow> mdtool_Model" where
  "mdtool_SetConfiguration c command = command\<lparr>md_configuration := Some c\<rparr>"

definition mdtool_SetPlatform :: "string \<Rightarrow> mdtool_Model \<Rightarrow> mdtool_Model" where
  "mdtool_SetPlatform p command = command\<lparr>md_platform := Some p\<rparr>"

definition mdtool_SetProjectName :: "string \<Rightarrow> mdtool_Model \<Rightarrow> mdtool_Model" where
  "mdtool_SetProjectName n command = command\<lparr>md_projectName := Some n\<rparr>"

definition xbuild_New :: "string \<Rightarrow> xbuild_Model" where
  "xbuild_New projectPth =
     \<lparr>xb_projectPth = projectPth, xb_target = None, xb_configuration = None,
      xb_platform = None, xb_buildIpa = False, xb_archiveOnBuild = False,
      xb_customOptions = []\<rparr>"

definition xbuild_SetTarget :: "string \<Rightarrow> xbuild_Model \<Rightarrow> xbuild_Model" where
  "xbuild_SetTarget t command = command\<lparr>xb_target := Some t\<rparr>"

definition xbuild_SetConfiguration :: "string \<Rightarrow> xbuild_Model \<Rightarrow> xbuild_Model" where
  "xbuild_SetConfiguration c command = command\<lparr>xb_configuration := Some c\<rparr>"

definition xbuild_SetPlatform :: "string \<Rightarrow> xbuild_Model \<Rightarrow> xbuild_Model" where
  "xbuild_SetPlatform p command = command\<lparr>xb_platform := Some p\<rparr>"

definition xbuild_SetBuildIpa :: "bool \<Rightarrow> xbuild_Model \<Rightarrow> xbuild_Model" where
  "xbuild_SetBuildIpa f command = command\<lparr>xb_buildIpa := f\<rparr>"

definition xbuild_SetArchiveOnBuild :: "bool \<Rightarrow> xbuild_Model \<Rightarrow> xbuild_Model" where
  "xbuild_SetArchiveOnBuild f command = command\<lparr>xb_archiveOnBuild := f\<rparr>"

text \<open>Modelled from the spec: the equality behind
  \<^verbatim>\<open>buildtool.BuildCommandSliceContains\<close>. Two commands are equal when toolchain,
  target action, configuration, platform and project name match; a build-engine command
  has no project name.\<close>

fun BuildCommandEqual :: "RunnableCommand \<Rightarrow> RunnableCommand \<Rightarrow> bool" where
  "BuildCommandEqual (MDTool a) (MDTool b) =
     (md_target a = md_target b \<and> md_configuration a = md_configuration b \<and>
      md_platform a = md_platform b \<and> md_projectName a = md_projectName b)"
| "BuildCommandEqual (XBuild a) (XBuild b) =
     (xb_target a = xb_target b \<and> xb_configuration a = xb_configuration b \<and>
      xb_platform a = xb_platform b)"
| "BuildCommandEqual _ _ = False"

fun BuildCommandSliceContains :: "RunnableCommand list \<Rightarrow> RunnableCommand \<Rightarrow> bool" where
  "BuildCommandSliceContains [] cmd = False"
| "BuildCommandSliceContains (c # cmdSlice) cmd =
     (if BuildCommandEqual c cmd then True else BuildCommandSliceContains cmdSlice cmd)"

subsection \<open>Helpers of other files\<close>

text \<open>Modelled from the spec: \<^verbatim>\<open>utility.ToConfig\<close>, the solution configuration key
  \<^verbatim>\<open><Configuration>|<Platform>\<close>.\<close>

definition ToConfig :: "string \<Rightarrow> string \<Rightarrow> string" where
  "ToConfig configuration platform = configuration @ ''|'' @ platform"

text \<open>Modelled from the spec: \<^verbatim>\<open>isPlatformAnyCPU\<close>, true when the platform string is
  the wildcard \<^verbatim>\<open>AnyCPU\<close>, compared without regard to (ASCII) letter case.\<close>

definition toLower :: "char \<Rightarrow> char" where
  "toLower c =
     (case map_of (zip ''ABCDEFGHIJKLMNOPQRSTUVWXYZ'' ''abcdefghijklmnopqrstuvwxyz'') c of
        None \<Rightarrow> c
      | Some l \<Rightarrow> l)"

definition isPlatformAnyCPU :: "string \<Rightarrow> bool" where
  "isPlatformAnyCPU platform = (map toLower platform = ''anycpu'')"

text \<open>The helpers whose bodies are in other files and that the builder only calls: the
  whitelist test, the archivability test on an architecture list, the validation of the
  requested solution configuration, and the artifact probes of \<^verbatim>\<open>CollectOutput\<close>
  (each returns a path, empty when nothing was found, or an error).\<close>

record externals =
  isProjectTypeAllowed :: "ProjectType \<Rightarrow> ProjectType list \<Rightarrow> bool"
  isArchitectureArchiveable :: "string list \<Rightarrow> bool"
  validateSolutionConfig :: "solution_Model \<Rightarrow> string \<Rightarrow> string \<Rightarrow> error option"
  exportLatestXCArchiveFromXcodeArchives :: "string \<Rightarrow> error + string"
  exportLatestIpa :: "string \<Rightarrow> string \<Rightarrow> error + string"
  exportAppDSYM :: "string \<Rightarrow> string \<Rightarrow> error + string"
  exportApp :: "string \<Rightarrow> string \<Rightarrow> error + string"
  exportPKG :: "string \<Rightarrow> string \<Rightarrow> error + string"
  androidPackageName :: "string \<Rightarrow> error + string"
  exportApk :: "string \<Rightarrow> string \<Rightarrow> error + string"

section \<open>Filtering\<close>

text \<open>\<^verbatim>\<open>filteredProjects\<close>: the loop over the project map, with its two tests in
  the source's order.\<close>

fun filteredProjects_loop ::
  "externals \<Rightarrow> Model \<Rightarrow> (string \<times> project_Model) list \<Rightarrow> project_Model list \<Rightarrow> project_Model list"
where
  "filteredProjects_loop X builder [] projects = projects"
| "filteredProjects_loop X builder ((k, proj) # rest) projects =
     (if \<not> isProjectTypeAllowed X (ProjectType proj) (projectTypeWhitelist builder)
      then filteredProjects_loop X builder rest projects
      else if ProjectType proj \<noteq> ProjectTypeUnknown
      then filteredProjects_loop X builder rest (projects @ [proj])
      else filteredProjects_loop X builder rest projects)"

definition filteredProjects :: "externals \<Rightarrow> Model \<Rightarrow> project_Model list" where
  "filteredProjects X builder =
     filteredProjects_loop X builder (ProjectMap (solution builder)) []"

definition noConfigWarning :: "project_Model \<Rightarrow> string \<Rightarrow> string" where
  "noConfigWarning proj solutionConfig =
     ''project ('' @ Name proj @ '') do not have config for solution config ('' @
     solutionConfig @ ''), skipping...''"

definition notArchivableWarning :: "project_Model \<Rightarrow> string" where
  "notArchivableWarning proj =
     ''project ('' @ Name proj @ '') does not archivable based on output type ('' @
     OutputType proj @ ''), skipping...''"

definition notAndroidApplicationWarning :: "project_Model \<Rightarrow> string" where
  "notAndroidApplicationWarning proj =
     ''('' @ Name proj @ '') is not an android application project, skipping...''"

text \<open>\<^verbatim>\<open>buildableProjects\<close>: the loop over the filtered projects; the accumulators
  are the two slices the source appends to.\<close>

fun buildableProjects_loop ::
  "string \<Rightarrow> project_Model list \<Rightarrow> project_Model list \<Rightarrow> string list \<Rightarrow>
   project_Model list \<times> string list"
where
  "buildableProjects_loop solutionConfig [] projects warnings = (projects, warnings)"
| "buildableProjects_loop solutionConfig (proj # rest) projects warnings =
     (if ConfigMap proj solutionConfig = None
      then buildableProjects_loop solutionConfig rest projects
             (warnings @ [noConfigWarning proj solutionConfig])
      else if (ProjectType proj = ProjectTypeIOS \<or>
               ProjectType proj = ProjectTypeMacOS \<or>
               ProjectType proj = ProjectTypeTvOS) \<and>
              OutputType proj \<noteq> ''exe''
      then buildableProjects_loop solutionConfig rest projects
             (warnings @ [notArchivableWarning proj])
      else if ProjectType proj = ProjectTypeAndroid \<and> \<not> AndroidApplication proj
      then buildableProjects_loop solutionConfig rest projects
             (warnings @ [notAndroidApplicationWarning proj])
      else if ProjectType proj \<noteq> ProjectTypeUnknown
      then buildableProjects_loop solutionConfig rest (projects @ [proj]) warnings
      else buildableProjects_loop solutionConfig rest projects warnings)"

text \<open>The test a filtered project passes to be buildable: the four conditions of the
  loop above, together.\<close>

definition eligible :: "string \<Rightarrow> project_Model \<Rightarrow> bool" where
  "eligible solutionConfig proj =
     (ConfigMap proj solutionConfig \<noteq> None \<and>
      \<not> ((ProjectType proj = ProjectTypeIOS \<or> ProjectType proj = ProjectTypeMacOS \<or>
           ProjectType proj = ProjectTypeTvOS) \<and> OutputType proj \<noteq> ''exe'') \<and>
      \<not> (ProjectType proj = ProjectTypeAndroid \<and> \<not> AndroidApplication proj) \<and>
      ProjectType proj \<noteq> ProjectTypeUnknown)"

definition buildableProjects ::
  "externals \<Rightarrow> Model \<Rightarrow> string \<Rightarrow> string \<Rightarrow> project_Model list \<times> string list"
where
  "buildableProjects X builder configuration platform =
     (let solutionConfig = ToConfig configuration platform;
          filtered = filteredProjects X builder
      in buildableProjects_loop solutionConfig filtered [] [])"

section \<open>Planning\<close>

text \<open>The block \<^verbatim>\<open>// Prepare build commands\<close> of \<^verbatim>\<open>BuildAllProjects\<close>: the
  switch on the project type, for a project whose configuration has been resolved.
  \<open>configuration\<close> and \<open>platform\<close> are the values the caller requested. A type with no
  case in the switch gets no command.\<close>

definition planBuildCommands ::
  "externals \<Rightarrow> Model \<Rightarrow> string \<Rightarrow> string \<Rightarrow> project_Model \<Rightarrow> ProjectConfig \<Rightarrow>
   RunnableCommand list"
where
  "planBuildCommands X builder configuration platform proj projectConfig =
     (if ProjectType proj = ProjectTypeIOS \<or> ProjectType proj = ProjectTypeTvOS then
        (if forceMDTool builder then
           (let command = mdtool_SetTarget ''build'' (mdtool_New (solution_Pth (solution builder)));
                command = mdtool_SetConfiguration (Configuration projectConfig) command;
                command = mdtool_SetPlatform (Platform projectConfig) command;
                command = mdtool_SetProjectName (Name proj) command;
                buildCommands = [] @ [MDTool command]
            in if isArchitectureArchiveable X (MtouchArchs projectConfig) then
                 (let command = mdtool_SetTarget ''archive''
                                  (mdtool_New (solution_Pth (solution builder)));
                      command = mdtool_SetConfiguration (Configuration projectConfig) command;
                      command = mdtool_SetPlatform (Platform projectConfig) command;
                      command = mdtool_SetProjectName (Name proj) command
                  in buildCommands @ [MDTool command])
               else buildCommands)
         else
           (let command = xbuild_SetTarget ''Build'' (xbuild_New (solution_Pth (solution builder)));
                command = xbuild_SetConfiguration configuration command;
                command = xbuild_SetPlatform platform command;
                command = (if isArchitectureArchiveable X (MtouchArchs projectConfig)
                           then xbuild_SetArchiveOnBuild True (xbuild_SetBuildIpa True command)
                           else command)
            in [] @ [XBuild command]))
      else if ProjectType proj = ProjectTypeMacOS then
        (if forceMDTool builder then
           (let command = mdtool_SetTarget ''build'' (mdtool_New (solution_Pth (solution builder)));
                command = mdtool_SetConfiguration (Configuration projectConfig) command;
                command = mdtool_SetPlatform (Platform projectConfig) command;
                command = mdtool_SetProjectName (Name proj) command;
                buildCommands = [] @ [MDTool command];
                command = mdtool_SetTarget ''archive''
                            (mdtool_New (solution_Pth (solution builder)));
                command = mdtool_SetConfiguration (Configuration projectConfig) command;
                command = mdtool_SetPlatform (Platform projectConfig) command;
                command = mdtool_SetProjectName (Name proj) command
            in buildCommands @ [MDTool command])
         else
           (let command = xbuild_SetTarget ''Build'' (xbuild_New (solution_Pth (solution builder)));
                command = xbuild_SetConfiguration configuration command;
                command = xbuild_SetPlatform platform command;
                command = xbuild_SetArchiveOnBuild True command
            in [] @ [XBuild command]))
      else if ProjectType proj = ProjectTypeAndroid then
        (let command = xbuild_New (Pth proj);
             command = (if SignAndroid projectConfig
                        then xbuild_SetTarget ''SignAndroidPackage'' command
                        else xbuild_SetTarget ''PackageForAndroid'' command);
             command = xbuild_SetConfiguration (Configuration projectConfig) command;
             command = (if \<not> isPlatformAnyCPU (Platform projectConfig)
                        then xbuild_SetPlatform (Platform projectConfig) command
                        else command)
         in [] @ [XBuild command])
      else [])"

section \<open>Execution\<close>

text \<open>The caller's hooks and the command's \<^verbatim>\<open>Run\<close> act on the world outside the
  builder (the console, the file system, the toolchain); \<open>'w\<close> is the state of that
  world, passed through every call. A hook that is \<^verbatim>\<open>nil\<close> is \<open>None\<close>. The
  preparation hook edits the command in place, so it returns the edited command.\<close>

record 'w hooks =
  prepareCallback :: "(project_Model \<Rightarrow> RunnableCommand \<Rightarrow> 'w \<Rightarrow> RunnableCommand \<times> 'w) option"
  callback :: "(project_Model \<Rightarrow> RunnableCommand \<Rightarrow> bool \<Rightarrow> 'w \<Rightarrow> 'w) option"
  Run :: "RunnableCommand \<Rightarrow> 'w \<Rightarrow> error option \<times> 'w"

text \<open>The last step of the body of \<^verbatim>\<open>for _, buildCommand := range buildCommands\<close>:
  a command that was not already performed is run; a failed run returns its error, a
  successful one appends the command to the performed commands.\<close>

definition performBuildCommand ::
  "'w hooks \<Rightarrow> RunnableCommand \<Rightarrow> bool \<Rightarrow> RunnableCommand list \<Rightarrow> 'w \<Rightarrow>
   (error \<times> 'w) + (RunnableCommand list \<times> 'w)"
where
  "performBuildCommand H buildCommand alreadyPerformed perfomedCommands w =
     (if \<not> alreadyPerformed then
        (case Run H buildCommand w of
           (Some err, w) \<Rightarrow> Inl (err, w)
         | (None, w) \<Rightarrow> Inr (perfomedCommands @ [buildCommand], w))
      else Inr (perfomedCommands, w))"

text \<open>One pass of the body of that loop: the preparation hook, the test against the
  performed commands, the observation hook, then the step above. The result is the error
  of a failed run, or the list of performed commands after the pass, each with the world
  it leaves.\<close>

definition runBuildCommand ::
  "'w hooks \<Rightarrow> project_Model \<Rightarrow> RunnableCommand \<Rightarrow> RunnableCommand list \<Rightarrow> 'w \<Rightarrow>
   (error \<times> 'w) + (RunnableCommand list \<times> 'w)"
where
  "runBuildCommand H proj buildCommand perfomedCommands w =
     (let (buildCommand, w) =
            (case prepareCallback H of
               None \<Rightarrow> (buildCommand, w)
             | Some prepare \<Rightarrow> prepare proj buildCommand w);
          alreadyPerformed = BuildCommandSliceContains perfomedCommands buildCommand;
          w = (case callback H of
                 None \<Rightarrow> w
               | Some observe \<Rightarrow> observe proj buildCommand alreadyPerformed w)
      in performBuildCommand H buildCommand alreadyPerformed perfomedCommands w)"

text \<open>The command and the world that \<^verbatim>\<open>Run\<close> receives in one pass of the body:
  the command as the preparation hook left it, and the world after the preparation and
  the observation hook.\<close>

definition commandToRun ::
  "'w hooks \<Rightarrow> project_Model \<Rightarrow> RunnableCommand \<Rightarrow> 'w \<Rightarrow> RunnableCommand"
where
  "commandToRun H proj buildCommand w =
     (case prepareCallback H of
        None \<Rightarrow> buildCommand
      | Some prepare \<Rightarrow> fst (prepare proj buildCommand w))"

definition worldAtRun ::
  "'w hooks \<Rightarrow> project_Model \<Rightarrow> RunnableCommand \<Rightarrow> RunnableCommand list \<Rightarrow> 'w \<Rightarrow> 'w"
where
  "worldAtRun H proj buildCommand perfomedCommands w =
     (let (buildCommand, w) =
            (case prepareCallback H of
               None \<Rightarrow> (buildCommand, w)
             | Some prepare \<Rightarrow> prepare proj buildCommand w);
          alreadyPerformed = BuildCommandSliceContains perfomedCommands buildCommand
      in case callback H of
           None \<Rightarrow> w
         | Some observe \<Rightarrow> observe proj buildCommand alreadyPerformed w)"

fun runBuildCommands ::
  "'w hooks \<Rightarrow> project_Model \<Rightarrow> RunnableCommand list \<Rightarrow> RunnableCommand list \<Rightarrow> 'w \<Rightarrow>
   (error \<times> 'w) + (RunnableCommand list \<times> 'w)"
where
  "runBuildCommands H proj [] perfomedCommands w = Inr (perfomedCommands, w)"
| "runBuildCommands H proj (buildCommand # rest) perfomedCommands w =
     (case runBuildCommand H proj buildCommand perfomedCommands w of
        Inl failure \<Rightarrow> Inl failure
      | Inr (perfomedCommands, w) \<Rightarrow> runBuildCommands H proj rest perfomedCommands w)"

definition noProjectConfigWarning :: "project_Model \<Rightarrow> string \<Rightarrow> string" where
  "noProjectConfigWarning proj solutionConfig =
     ''project ('' @ Name proj @ '') contains mapping for solution config ('' @
     solutionConfig @ ''), but does not have project configuration''"

text \<open>The loop \<^verbatim>\<open>for _, proj := range buildableProjects\<close>. The list of performed
  commands is declared inside the loop body, so every project starts with an empty one.
  The result is what \<^verbatim>\<open>BuildAllProjects\<close> returns (the warnings and the error, if
  any), with the world it leaves.\<close>

fun buildProjects_loop ::
  "externals \<Rightarrow> Model \<Rightarrow> string \<Rightarrow> string \<Rightarrow> 'w hooks \<Rightarrow> project_Model list \<Rightarrow>
   string list \<Rightarrow> 'w \<Rightarrow> string list \<times> error option \<times> 'w"
where
  "buildProjects_loop X builder configuration platform H [] warnings w = (warnings, None, w)"
| "buildProjects_loop X builder configuration platform H (proj # rest) warnings w =
     (let solutionConfig = ToConfig configuration platform in
      case ConfigMap proj solutionConfig of
        None \<Rightarrow>
          buildProjects_loop X builder configuration platform H rest
            (warnings @ [noConfigWarning proj solutionConfig]) w
      | Some projectConfigKey \<Rightarrow>
          (case Configs proj projectConfigKey of
             None \<Rightarrow>
               buildProjects_loop X builder configuration platform H rest
                 (warnings @ [noProjectConfigWarning proj solutionConfig]) w
           | Some projectConfig \<Rightarrow>
               (let buildCommands =
                      planBuildCommands X builder configuration platform proj projectConfig;
                    perfomedCommands = []
                in case runBuildCommands H proj buildCommands perfomedCommands w of
                     Inl (err, w) \<Rightarrow> (warnings, Some err, w)
                   | Inr (_, w) \<Rightarrow>
                       buildProjects_loop X builder configuration platform H rest warnings w)))"

definition BuildAllProjects ::
  "externals \<Rightarrow> Model \<Rightarrow> string \<Rightarrow> string \<Rightarrow> 'w hooks \<Rightarrow> 'w \<Rightarrow>
   string list \<times> error option \<times> 'w"
where
  "BuildAllProjects X builder configuration platform H w =
     (case validateSolutionConfig X (solution builder) configuration platform of
        Some err \<Rightarrow> ([], Some err, w)
      | None \<Rightarrow>
          (let (buildable, warnings) = buildableProjects X builder configuration platform
           in if length buildable = 0 then (warnings, None, w)
              else buildProjects_loop X builder configuration platform H buildable warnings w))"

section \<open>Collecting the output\<close>

text \<open>A Go map with few keys is an association list with distinct keys
  (\<open>AList.update\<close> stores, \<open>map_of\<close> looks up), so that its length is its number of
  keys.\<close>

type_synonym ArtifactMap = "(OutputType \<times> string) list"
type_synonym OutputMap = "(ProjectType \<times> ArtifactMap) list"

text \<open>The pattern every probe of \<^verbatim>\<open>CollectOutput\<close> follows: return the probe's
  error if it has one, else store the path under the artifact kind when the path is not
  empty.\<close>

definition storeProbe ::
  "error + string \<Rightarrow> OutputType \<Rightarrow> ArtifactMap \<Rightarrow> error + ArtifactMap"
where
  "storeProbe probe kind projectTypeOutputMap =
     (case probe of
        Inl err \<Rightarrow> Inl err
      | Inr pth \<Rightarrow>
          Inr (if pth \<noteq> '''' then AList.update kind pth projectTypeOutputMap
               else projectTypeOutputMap))"

text \<open>The switch on the project type in \<^verbatim>\<open>CollectOutput\<close>, for one project.\<close>

definition collectProjectOutput ::
  "externals \<Rightarrow> Model \<Rightarrow> project_Model \<Rightarrow> ProjectConfig \<Rightarrow> ArtifactMap \<Rightarrow>
   error + ArtifactMap"
where
  "collectProjectOutput X builder proj projectConfig m =
     (if ProjectType proj = ProjectTypeIOS \<or> ProjectType proj = ProjectTypeTvOS then
        (case storeProbe (exportLatestXCArchiveFromXcodeArchives X (AssemblyName proj))
                OutputTypeXCArchive m of
           Inl err \<Rightarrow> Inl err
         | Inr m \<Rightarrow>
        (case storeProbe (exportLatestIpa X (OutputDir projectConfig) (AssemblyName proj))
                OutputTypeIPA m of
           Inl err \<Rightarrow> Inl err
         | Inr m \<Rightarrow>
             storeProbe (exportAppDSYM X (OutputDir projectConfig) (AssemblyName proj))
               OutputTypeDSYM m))
      else if ProjectType proj = ProjectTypeMacOS then
        (case (if forceMDTool builder
               then storeProbe (exportLatestXCArchiveFromXcodeArchives X (AssemblyName proj))
                      OutputTypeXCArchive m
               else Inr m) of
           Inl err \<Rightarrow> Inl err
         | Inr m \<Rightarrow>
        (case storeProbe (exportApp X (OutputDir projectConfig) (AssemblyName proj))
                OutputTypeAPP m of
           Inl err \<Rightarrow> Inl err
         | Inr m \<Rightarrow>
             storeProbe (exportPKG X (OutputDir projectConfig) (AssemblyName proj))
               OutputTypePKG m))
      else if ProjectType proj = ProjectTypeAndroid then
        (case androidPackageName X (ManifestPth proj) of
           Inl err \<Rightarrow> Inl err
         | Inr packageName \<Rightarrow>
             storeProbe (exportApk X (OutputDir projectConfig) packageName) OutputTypeAPK m)
      else Inr m)"

text \<open>The loop of \<^verbatim>\<open>CollectOutput\<close> over the buildable projects. The inner map of a
  project type is the one already stored for that type, or a new empty one; it is stored
  back only when it has an entry.\<close>

fun collectOutput_loop ::
  "externals \<Rightarrow> Model \<Rightarrow> string \<Rightarrow> project_Model list \<Rightarrow> OutputMap \<Rightarrow> error + OutputMap"
where
  "collectOutput_loop X builder solutionConfig [] outputMap = Inr outputMap"
| "collectOutput_loop X builder solutionConfig (proj # rest) outputMap =
     (case ConfigMap proj solutionConfig of
        None \<Rightarrow> collectOutput_loop X builder solutionConfig rest outputMap
      | Some projectConfigKey \<Rightarrow>
          (case Configs proj projectConfigKey of
             None \<Rightarrow> collectOutput_loop X builder solutionConfig rest outputMap
           | Some projectConfig \<Rightarrow>
               (let projectTypeOutputMap =
                      (case map_of outputMap (ProjectType proj) of
                         None \<Rightarrow> []
                       | Some m \<Rightarrow> m)
                in case collectProjectOutput X builder proj projectConfig
                          projectTypeOutputMap of
                     Inl err \<Rightarrow> Inl err
                   | Inr projectTypeOutputMap \<Rightarrow>
                       collectOutput_loop X builder solutionConfig rest
                         (if length projectTypeOutputMap > 0
                          then AList.update (ProjectType proj) projectTypeOutputMap outputMap
                          else outputMap))))"

definition CollectOutput ::
  "externals \<Rightarrow> Model \<Rightarrow> string \<Rightarrow> string \<Rightarrow> error + OutputMap"
where
  "CollectOutput X builder configuration platform =
     (let (buildable, _) = buildableProjects X builder configuration platform;
          solutionConfig = ToConfig configuration platform
      in collectOutput_loop X builder solutionConfig buildable [])"

text \<open>What the specification calls a probe that succeeded: it returned a path, and the
  path is not empty.\<close>

definition nonEmptyPath :: "error + string \<Rightarrow> bool" where
  "nonEmptyPath probe = (case probe of Inl _ \<Rightarrow> False | Inr pth \<Rightarrow> pth \<noteq> '''')"

text \<open>The specification's side of the output map invariant: at least one of the probes
  made for the project returned a non-empty path. The probes are listed per project type
  as the specification of the output collector lists them.\<close>

definition artifactFound ::
  "externals \<Rightarrow> Model \<Rightarrow> project_Model \<Rightarrow> ProjectConfig \<Rightarrow> bool"
where
  "artifactFound X builder proj projectConfig =
     (case ProjectType proj of
        ProjectTypeUnknown \<Rightarrow> False
      | ProjectTypeAndroid \<Rightarrow>
          (case androidPackageName X (ManifestPth proj) of
             Inl _ \<Rightarrow> False
           | Inr packageName \<Rightarrow>
               nonEmptyPath (exportApk X (OutputDir projectConfig) packageName))
      | ProjectTypeMacOS \<Rightarrow>
          (forceMDTool builder \<and>
             nonEmptyPath (exportLatestXCArchiveFromXcodeArchives X (AssemblyName proj))) \<or>
          nonEmptyPath (exportApp X (OutputDir projectConfig) (AssemblyName proj)) \<or>
          nonEmptyPath (exportPKG X (OutputDir projectConfig) (AssemblyName proj))
      | _ \<Rightarrow>
          nonEmptyPath (exportLatestXCArchiveFromXcodeArchives X (AssemblyName proj)) \<or>
          nonEmptyPath (exportLatestIpa X (OutputDir projectConfig) (AssemblyName proj)) \<or>
          nonEmptyPath (exportAppDSYM X (OutputDir projectConfig) (AssemblyName proj)))"

text \<open>The configuration of a project for a solution configuration key, when both
  lookups succeed: the projects that the loops of \<^verbatim>\<open>BuildAllProjects\<close> and
  \<^verbatim>\<open>CollectOutput\<close> do not skip.\<close>

definition resolveConfig :: "string \<Rightarrow> project_Model \<Rightarrow> ProjectConfig option" where
  "resolveConfig solutionConfig proj =
     (case ConfigMap proj solutionConfig of
        None \<Rightarrow> None
      | Some projectConfigKey \<Rightarrow> Configs proj projectConfigKey)"

section \<open>Recording hooks and example inputs\<close>

text \<open>A world that records what the builder does to it: every call of the observation
  hook, with the project's name, the command and the flag it was given, and every call
  of \<^verbatim>\<open>Run\<close>.\<close>

datatype event =
    Observed string RunnableCommand bool
  | Ran RunnableCommand

text \<open>Hooks that record, with a \<^verbatim>\<open>Run\<close> that fails on the commands \<open>fails\<close>
  selects and succeeds on the others.\<close>

definition recordingHooks :: "(RunnableCommand \<Rightarrow> bool) \<Rightarrow> event list hooks" where
  "recordingHooks fails =
     \<lparr>prepareCallback = None,
      callback = Some (\<lambda>proj command alreadyPerformed w.
                   w @ [Observed (Name proj) command alreadyPerformed]),
      Run = (\<lambda>command w.
               (if fails command then Some (Error ''exit status 1'') else None,
                w @ [Ran command]))\<rparr>"

definition isArchive :: "RunnableCommand \<Rightarrow> bool" where
  "isArchive command =
     (case command of
        MDTool m \<Rightarrow> md_target m = Some ''archive''
      | XBuild x \<Rightarrow> False)"

text \<open>Example helpers: an empty whitelist allows every type; an architecture list is
  archivable when it is not empty and not made of simulator architectures only; the
  requested solution configuration is valid; the only artifact on disk is the package of
  an iOS build.\<close>

definition exampleExternals :: externals where
  "exampleExternals =
     \<lparr>isProjectTypeAllowed = (\<lambda>t whitelist. whitelist = [] \<or> t \<in> set whitelist),
      isArchitectureArchiveable =
        (\<lambda>archs. filter (\<lambda>a. a \<noteq> ''i386'' \<and> a \<noteq> ''x86_64'') archs \<noteq> []),
      validateSolutionConfig = (\<lambda>sln configuration platform. None),
      exportLatestXCArchiveFromXcodeArchives = (\<lambda>assemblyName. Inr ''''),
      exportLatestIpa = (\<lambda>outputDir assemblyName. Inr (outputDir @ ''/'' @ assemblyName @ ''.ipa'')),
      exportAppDSYM = (\<lambda>outputDir assemblyName. Inr ''''),
      exportApp = (\<lambda>outputDir assemblyName. Inr ''''),
      exportPKG = (\<lambda>outputDir assemblyName. Inr ''''),
      androidPackageName = (\<lambda>manifestPth. Inr ''com.example.app''),
      exportApk = (\<lambda>outputDir packageName. Inr '''')\<rparr>"

definition exampleConfig :: "string \<Rightarrow> string list \<Rightarrow> bool \<Rightarrow> ProjectConfig" where
  "exampleConfig platform archs sign =
     \<lparr>Configuration = ''Release'', Platform = platform, OutputDir = ''bin/Release'',
      MtouchArchs = archs, SignAndroid = sign\<rparr>"

text \<open>A project mapped for the solution configuration \<^verbatim>\<open>Release|iPhone\<close>; \<open>configs\<close> is
  its table of project configurations.\<close>

definition exampleProject ::
  "string \<Rightarrow> ProjectType \<Rightarrow> string \<Rightarrow> (string \<rightharpoonup> ProjectConfig) \<Rightarrow> project_Model"
where
  "exampleProject name type outputType configs =
     \<lparr>Name = name, Pth = name @ ''/'' @ name @ ''.csproj'', ProjectType = type,
      OutputType = outputType, AssemblyName = name,
      ManifestPth = name @ ''/Properties/AndroidManifest.xml'', AndroidApplication = True,
      ConfigMap = [''Release|iPhone'' \<mapsto> ''Release|iPhone''], Configs = configs\<rparr>"

definition exampleBuilder :: "project_Model list \<Rightarrow> ProjectType list \<Rightarrow> bool \<Rightarrow> Model" where
  "exampleBuilder projs whitelist force =
     \<lparr>solution = \<lparr>solution_Pth = ''App.sln'', ProjectMap = map (\<lambda>p. (Name p, p)) projs\<rparr>,
      projectTypeWhitelist = whitelist, forceMDTool = force\<rparr>"

definition deviceConfigs :: "string \<rightharpoonup> ProjectConfig" where
  "deviceConfigs = [''Release|iPhone'' \<mapsto> exampleConfig ''iPhone'' [''arm64''] False]"

definition simulatorConfigs :: "string \<rightharpoonup> ProjectConfig" where
  "simulatorConfigs = [''Release|iPhone'' \<mapsto> exampleConfig ''iPhone'' [''x86_64''] False]"

definition androidConfigs :: "string \<rightharpoonup> ProjectConfig" where
  "androidConfigs = [''Release|iPhone'' \<mapsto> exampleConfig ''AnyCPU'' [] True]"

text \<open>The command that the build-engine path plans for every iOS project of the example
  solution with a device architecture.\<close>

definition solutionBuild :: RunnableCommand where
  "solutionBuild =
     XBuild \<lparr>xb_projectPth = ''App.sln'', xb_target = Some ''Build'',
             xb_configuration = Some ''Release'', xb_platform = Some ''iPhone'',
             xb_buildIpa = True, xb_archiveOnBuild = True, xb_customOptions = []\<rparr>"

definition nativeBuild :: "string \<Rightarrow> RunnableCommand" where
  "nativeBuild name =
     MDTool \<lparr>md_solutionPth = ''App.sln'', md_target = Some ''build'',
             md_configuration = Some ''Release'', md_platform = Some ''iPhone'',
             md_projectName = Some name, md_customOptions = []\<rparr>"

definition nativeArchive :: "string \<Rightarrow> RunnableCommand" where
  "nativeArchive name =
     MDTool \<lparr>md_solutionPth = ''App.sln'', md_target = Some ''archive'',
             md_configuration = Some ''Release'', md_platform = Some ''iPhone'',
             md_projectName = Some name, md_customOptions = []\<rparr>"

text \<open>Two iOS applications in one solution, built with the build engine: both plans
  are the one command \<open>solutionBuild\<close>.\<close>

definition twinSolution :: Model where
  "twinSolution =
     exampleBuilder
       [exampleProject ''A'' ProjectTypeIOS ''exe'' deviceConfigs,
        exampleProject ''B'' ProjectTypeIOS ''exe'' deviceConfigs]
       [] False"

text \<open>A solution built with the alternate toolchain: a library, a project whose
  configuration table is empty, an application, and two more projects after it.\<close>

definition failingSolution :: Model where
  "failingSolution =
     exampleBuilder
       [exampleProject ''Lib'' ProjectTypeIOS ''library'' deviceConfigs,
        exampleProject ''Old'' ProjectTypeIOS ''exe'' Map.empty,
        exampleProject ''App'' ProjectTypeIOS ''exe'' deviceConfigs,
        exampleProject ''New'' ProjectTypeIOS ''exe'' Map.empty,
        exampleProject ''TV'' ProjectTypeTvOS ''exe'' deviceConfigs]
       [] True"

text \<open>A solution whose first project is mapped for the solution configuration but has
  no project configuration under the mapped key.\<close>

definition staleSolution :: Model where
  "staleSolution =
     exampleBuilder
       [exampleProject ''Stale'' ProjectTypeIOS ''exe'' Map.empty,
        exampleProject ''App'' ProjectTypeIOS ''exe'' deviceConfigs]
       [ProjectTypeIOS] False"

text \<open>An iOS and an Android application; with \<open>exampleExternals\<close> only the iOS build
  has left an artifact.\<close>

definition mixedSolution :: Model where
  "mixedSolution =
     exampleBuilder
       [exampleProject ''App.iOS'' ProjectTypeIOS ''exe'' deviceConfigs,
        exampleProject ''App.Droid'' ProjectTypeAndroid ''library'' androidConfigs]
       [] False"

text \<open>The invariant of the output map inside the loop of \<^verbatim>\<open>CollectOutput\<close>: no
  project type is mapped to an empty artifact map.\<close>

definition entriesNonEmpty :: "OutputMap \<Rightarrow> bool" where
  "entriesNonEmpty outputMap = (\<forall>t m. map_of outputMap t = Some m \<longrightarrow> m \<noteq> [])"

text \<open>A preparation hook that adds an option to every command, on top of the
  recording hooks.\<close>

fun addCustomOption :: "string \<Rightarrow> RunnableCommand \<Rightarrow> RunnableCommand" where
  "addCustomOption option (MDTool m) = MDTool (m\<lparr>md_customOptions := md_customOptions m @ [option]\<rparr>)"
| "addCustomOption option (XBuild x) = XBuild (x\<lparr>xb_customOptions := xb_customOptions x @ [option]\<rparr>)"

definition optionHooks :: "(RunnableCommand \<Rightarrow> bool) \<Rightarrow> event list hooks" where
  "optionHooks fails =
     (recordingHooks fails)
       \<lparr>prepareCallback := Some (\<lambda>proj command w. (addCustomOption ''/verbosity:minimal'' command, w))\<rparr>"

text \<open>A solution built with the build engine: a library, an Android application, an
  iOS application and a tvOS application. \<open>isSolutionBuild\<close> selects the build of the
  solution, which the examples let fail.\<close>

definition isSolutionBuild :: "RunnableCommand \<Rightarrow> bool" where
  "isSolutionBuild command =
     (case command of
        MDTool m \<Rightarrow> False
      | XBuild x \<Rightarrow> xb_target x = Some ''Build'')"

definition brokenSolution :: Model where
  "brokenSolution =
     exampleBuilder
       [exampleProject ''Lib'' ProjectTypeIOS ''library'' deviceConfigs,
        exampleProject ''Droid'' ProjectTypeAndroid ''library'' androidConfigs,
        exampleProject ''App'' ProjectTypeIOS ''exe'' deviceConfigs,
        exampleProject ''TV'' ProjectTypeTvOS ''exe'' deviceConfigs]
       [] False"

definition droidPackage :: RunnableCommand where
  "droidPackage =
     XBuild \<lparr>xb_projectPth = ''Droid/Droid.csproj'', xb_target = Some ''SignAndroidPackage'',
             xb_configuration = Some ''Release'', xb_platform = None,
             xb_buildIpa = False, xb_archiveOnBuild = False,
             xb_customOptions = [''/verbosity:minimal'']\<rparr>"

definition quietSolutionBuild :: RunnableCommand where
  "quietSolutionBuild = addCustomOption ''/verbosity:minimal'' solutionBuild"



section \<open>Unfolding rules\<close>

lemmas cmd_defs =
  mdtool_New_def mdtool_SetTarget_def mdtool_SetConfiguration_def mdtool_SetPlatform_def
  mdtool_SetProjectName_def xbuild_New_def xbuild_SetTarget_def xbuild_SetConfiguration_def
  xbuild_SetPlatform_def xbuild_SetBuildIpa_def xbuild_SetArchiveOnBuild_def

lemmas ex_defs =
  exampleExternals_def exampleBuilder_def exampleProject_def ToConfig_def deviceConfigs_def
  simulatorConfigs_def androidConfigs_def exampleConfig_def recordingHooks_def
  solutionBuild_def isArchive_def nativeBuild_def nativeArchive_def

lemmas run_defs =
  BuildAllProjects_def buildableProjects_def filteredProjects_def planBuildCommands_def
  runBuildCommand_def performBuildCommand_def Let_def noConfigWarning_def
  notArchivableWarning_def notAndroidApplicationWarning_def noProjectConfigWarning_def

section \<open>The filters\<close>

lemma filteredProjects_loop_eq:
  "filteredProjects_loop X builder entries projects =
     projects @
     filter (\<lambda>proj. isProjectTypeAllowed X (ProjectType proj) (projectTypeWhitelist builder) \<and>
                    ProjectType proj \<noteq> ProjectTypeUnknown) (map snd entries)"
  by (induction entries arbitrary: projects) auto

lemma filteredProjects_eq:
  "filteredProjects X builder =
     filter (\<lambda>proj. isProjectTypeAllowed X (ProjectType proj) (projectTypeWhitelist builder) \<and>
                    ProjectType proj \<noteq> ProjectTypeUnknown)
       (map snd (ProjectMap (solution builder)))"
  by (simp add: filteredProjects_def filteredProjects_loop_eq)

lemma buildableProjects_loop_fst:
  "fst (buildableProjects_loop sc projs projects warnings) =
     projects @ filter (eligible sc) projs"
  by (induction projs arbitrary: projects warnings) (auto simp: eligible_def)


lemma buildableProjects_fst:
  "fst (buildableProjects X builder configuration platform) =
     filter (eligible (ToConfig configuration platform)) (filteredProjects X builder)"
  by (simp add: buildableProjects_def Let_def buildableProjects_loop_fst)

text \<open>
  Claim C7. A project whose type is Unknown is never among the filtered projects, never
  among the buildable projects, and the planner gives it no build command.
\<close>

theorem unknown_project_excluded:
  assumes "ProjectType proj = ProjectTypeUnknown"
  shows "proj \<notin> set (filteredProjects X builder) \<and>
         proj \<notin> set (fst (buildableProjects X builder configuration platform)) \<and>
         planBuildCommands X builder configuration platform proj projectConfig = []"
  using assms
  by (simp add: filteredProjects_eq buildableProjects_fst planBuildCommands_def)

theorem unknown_project_excluded_witness:
  "exampleProject ''Shared'' ProjectTypeUnknown ''library'' deviceConfigs
     \<notin> set (filteredProjects exampleExternals
              (exampleBuilder [exampleProject ''Shared'' ProjectTypeUnknown ''library'' deviceConfigs]
                 [] False)) \<and>
   exampleProject ''Shared'' ProjectTypeUnknown ''library'' deviceConfigs
     \<notin> set (fst (buildableProjects exampleExternals
              (exampleBuilder [exampleProject ''Shared'' ProjectTypeUnknown ''library'' deviceConfigs]
                 [] False) ''Release'' ''iPhone'')) \<and>
   planBuildCommands exampleExternals
     (exampleBuilder [exampleProject ''Shared'' ProjectTypeUnknown ''library'' deviceConfigs]
        [] False) ''Release'' ''iPhone''
     (exampleProject ''Shared'' ProjectTypeUnknown ''library'' deviceConfigs)
     (exampleConfig ''iPhone'' [''arm64''] False) = []"
  using unknown_project_excluded
      [of "exampleProject ''Shared'' ProjectTypeUnknown ''library'' deviceConfigs"
          exampleExternals
          "exampleBuilder [exampleProject ''Shared'' ProjectTypeUnknown ''library'' deviceConfigs]
             [] False"
          "''Release''" "''iPhone''" "exampleConfig ''iPhone'' [''arm64''] False"]
  by (simp add: exampleProject_def)




section \<open>The planner\<close>

text \<open>
  Claim C3. For an iOS or tvOS project, when the alternate toolchain is not forced, the
  planner emits exactly one command: a build-engine \<^verbatim>\<open>Build\<close> of the solution path
  with the configuration and platform the caller requested (not the project
  configuration's), on which the build-ipa and archive-on-build flags are both set exactly
  when the project's architecture list is archivable.
\<close>

theorem ios_build_engine_plan:
  assumes "ProjectType proj = ProjectTypeIOS \<or> ProjectType proj = ProjectTypeTvOS"
      and "\<not> forceMDTool builder"
  shows "planBuildCommands X builder configuration platform proj projectConfig =
     [XBuild \<lparr>xb_projectPth = solution_Pth (solution builder),
              xb_target = Some ''Build'',
              xb_configuration = Some configuration,
              xb_platform = Some platform,
              xb_buildIpa = isArchitectureArchiveable X (MtouchArchs projectConfig),
              xb_archiveOnBuild = isArchitectureArchiveable X (MtouchArchs projectConfig),
              xb_customOptions = []\<rparr>]"
  using assms by (auto simp: planBuildCommands_def cmd_defs Let_def)

theorem ios_build_engine_plan_witness:
  "planBuildCommands exampleExternals (exampleBuilder [] [] False) ''Release'' ''iPhone''
     (exampleProject ''App.iOS'' ProjectTypeIOS ''exe'' simulatorConfigs)
     (exampleConfig ''iPhoneSimulator'' [''x86_64''] False) =
   [XBuild \<lparr>xb_projectPth = ''App.sln'', xb_target = Some ''Build'',
            xb_configuration = Some ''Release'', xb_platform = Some ''iPhone'',
            xb_buildIpa = False, xb_archiveOnBuild = False, xb_customOptions = []\<rparr>] \<and>
   planBuildCommands exampleExternals (exampleBuilder [] [] False) ''Release'' ''iPhone''
     (exampleProject ''App.tvOS'' ProjectTypeTvOS ''exe'' deviceConfigs)
     (exampleConfig ''iPhone'' [''arm64''] False) = [solutionBuild]"
  using ios_build_engine_plan
      [of "exampleProject ''App.iOS'' ProjectTypeIOS ''exe'' simulatorConfigs"
          "exampleBuilder [] [] False" exampleExternals "''Release''" "''iPhone''"
          "exampleConfig ''iPhoneSimulator'' [''x86_64''] False"]
    ios_build_engine_plan
      [of "exampleProject ''App.tvOS'' ProjectTypeTvOS ''exe'' deviceConfigs"
          "exampleBuilder [] [] False" exampleExternals "''Release''" "''iPhone''"
          "exampleConfig ''iPhone'' [''arm64''] False"]
  by (simp add: ex_defs)

text \<open>
  Claim C4. For an Android project the planner emits exactly one build-engine command,
  on the project's own path: its target is \<^verbatim>\<open>SignAndroidPackage\<close> when the project
  configuration asks for signing and \<^verbatim>\<open>PackageForAndroid\<close> otherwise, its
  configuration is the project's own, and its platform is set (to the project's own)
  exactly when that platform is not \<^verbatim>\<open>AnyCPU\<close> in any letter case.
\<close>

theorem android_plan:
  assumes "ProjectType proj = ProjectTypeAndroid"
  shows "planBuildCommands X builder configuration platform proj projectConfig =
     [XBuild \<lparr>xb_projectPth = Pth proj,
              xb_target = Some (if SignAndroid projectConfig then ''SignAndroidPackage''
                                else ''PackageForAndroid''),
              xb_configuration = Some (Configuration projectConfig),
              xb_platform = (if map toLower (Platform projectConfig) = ''anycpu'' then None
                             else Some (Platform projectConfig)),
              xb_buildIpa = False, xb_archiveOnBuild = False, xb_customOptions = []\<rparr>]"
  using assms by (simp add: planBuildCommands_def cmd_defs isPlatformAnyCPU_def)

theorem android_plan_witness:
  "planBuildCommands exampleExternals (exampleBuilder [] [] True) ''Release'' ''iPhone''
     (exampleProject ''App.Droid'' ProjectTypeAndroid ''library'' androidConfigs)
     (exampleConfig ''AnyCPU'' [] True) =
   [XBuild \<lparr>xb_projectPth = ''App.Droid/App.Droid.csproj'',
            xb_target = Some ''SignAndroidPackage'',
            xb_configuration = Some ''Release'', xb_platform = None,
            xb_buildIpa = False, xb_archiveOnBuild = False, xb_customOptions = []\<rparr>] \<and>
   planBuildCommands exampleExternals (exampleBuilder [] [] False) ''Debug'' ''Any CPU''
     (exampleProject ''Lib.Droid'' ProjectTypeAndroid ''library'' androidConfigs)
     (exampleConfig ''x86'' [] False) =
   [XBuild \<lparr>xb_projectPth = ''Lib.Droid/Lib.Droid.csproj'',
            xb_target = Some ''PackageForAndroid'',
            xb_configuration = Some ''Release'', xb_platform = Some ''x86'',
            xb_buildIpa = False, xb_archiveOnBuild = False, xb_customOptions = []\<rparr>]"
  using android_plan
      [of "exampleProject ''App.Droid'' ProjectTypeAndroid ''library'' androidConfigs"
          exampleExternals "exampleBuilder [] [] True" "''Release''" "''iPhone''"
          "exampleConfig ''AnyCPU'' [] True"]
    android_plan
      [of "exampleProject ''Lib.Droid'' ProjectTypeAndroid ''library'' androidConfigs"
          exampleExternals "exampleBuilder [] [] False" "''Debug''" "''Any CPU''"
          "exampleConfig ''x86'' [] False"]
  by (simp add: ex_defs toLower_def)

text \<open>
  Claim C5. For a macOS project, when the alternate toolchain is forced, the planner
  emits exactly two commands, a \<^verbatim>\<open>build\<close> followed by an \<^verbatim>\<open>archive\<close>, both with
  the project's own configuration, platform and name, whatever the architecture list is.
\<close>

theorem macos_forced_plan:
  assumes "ProjectType proj = ProjectTypeMacOS"
      and "forceMDTool builder"
  shows "planBuildCommands X builder configuration platform proj projectConfig =
     [MDTool \<lparr>md_solutionPth = solution_Pth (solution builder),
              md_target = Some ''build'',
              md_configuration = Some (Configuration projectConfig),
              md_platform = Some (Platform projectConfig),
              md_projectName = Some (Name proj), md_customOptions = []\<rparr>,
      MDTool \<lparr>md_solutionPth = solution_Pth (solution builder),
              md_target = Some ''archive'',
              md_configuration = Some (Configuration projectConfig),
              md_platform = Some (Platform projectConfig),
              md_projectName = Some (Name proj), md_customOptions = []\<rparr>]"
  using assms by (simp add: planBuildCommands_def cmd_defs)

theorem macos_forced_plan_witness:
  "planBuildCommands exampleExternals (exampleBuilder [] [] True) ''Release'' ''iPhone''
     (exampleProject ''App.Mac'' ProjectTypeMacOS ''exe'' simulatorConfigs)
     (exampleConfig ''x86'' [] False) =
   [MDTool \<lparr>md_solutionPth = ''App.sln'', md_target = Some ''build'',
            md_configuration = Some ''Release'', md_platform = Some ''x86'',
            md_projectName = Some ''App.Mac'', md_customOptions = []\<rparr>,
    MDTool \<lparr>md_solutionPth = ''App.sln'', md_target = Some ''archive'',
            md_configuration = Some ''Release'', md_platform = Some ''x86'',
            md_projectName = Some ''App.Mac'', md_customOptions = []\<rparr>]"
  using macos_forced_plan
      [of "exampleProject ''App.Mac'' ProjectTypeMacOS ''exe'' simulatorConfigs"
          "exampleBuilder [] [] True" exampleExternals "''Release''" "''iPhone''"
          "exampleConfig ''x86'' [] False"]
  by (simp add: ex_defs)

text \<open>
  Claim C6. For an iOS or tvOS project, when the alternate toolchain is forced, the
  planner emits a \<^verbatim>\<open>build\<close> command with the project's own configuration, platform
  and name, followed by an \<^verbatim>\<open>archive\<close> command with the same configuration, platform
  and name exactly when the project's architecture list is archivable.
\<close>

theorem ios_forced_plan:
  assumes "ProjectType proj = ProjectTypeIOS \<or> ProjectType proj = ProjectTypeTvOS"
      and "forceMDTool builder"
  shows "planBuildCommands X builder configuration platform proj projectConfig =
     MDTool \<lparr>md_solutionPth = solution_Pth (solution builder),
             md_target = Some ''build'',
             md_configuration = Some (Configuration projectConfig),
             md_platform = Some (Platform projectConfig),
             md_projectName = Some (Name proj), md_customOptions = []\<rparr> #
     (if isArchitectureArchiveable X (MtouchArchs projectConfig)
      then [MDTool \<lparr>md_solutionPth = solution_Pth (solution builder),
                    md_target = Some ''archive'',
                    md_configuration = Some (Configuration projectConfig),
                    md_platform = Some (Platform projectConfig),
                    md_projectName = Some (Name proj), md_customOptions = []\<rparr>]
      else [])"
  using assms by (auto simp: planBuildCommands_def cmd_defs Let_def)

theorem ios_forced_plan_witness:
  "planBuildCommands exampleExternals (exampleBuilder [] [] True) ''Debug'' ''Any CPU''
     (exampleProject ''App.iOS'' ProjectTypeIOS ''exe'' deviceConfigs)
     (exampleConfig ''iPhone'' [''arm64''] False) =
   [nativeBuild ''App.iOS'', nativeArchive ''App.iOS''] \<and>
   planBuildCommands exampleExternals (exampleBuilder [] [] True) ''Debug'' ''Any CPU''
     (exampleProject ''App.tvOS'' ProjectTypeTvOS ''exe'' simulatorConfigs)
     (exampleConfig ''iPhoneSimulator'' [''i386'', ''x86_64''] False) =
   [MDTool \<lparr>md_solutionPth = ''App.sln'', md_target = Some ''build'',
            md_configuration = Some ''Release'', md_platform = Some ''iPhoneSimulator'',
            md_projectName = Some ''App.tvOS'', md_customOptions = []\<rparr>]"
  using ios_forced_plan
      [of "exampleProject ''App.iOS'' ProjectTypeIOS ''exe'' deviceConfigs"
          "exampleBuilder [] [] True" exampleExternals "''Debug''" "''Any CPU''"
          "exampleConfig ''iPhone'' [''arm64''] False"]
    ios_forced_plan
      [of "exampleProject ''App.tvOS'' ProjectTypeTvOS ''exe'' simulatorConfigs"
          "exampleBuilder [] [] True" exampleExternals "''Debug''" "''Any CPU''"
          "exampleConfig ''iPhoneSimulator'' [''i386'', ''x86_64''] False"]
  by (simp add: ex_defs)

section \<open>The executor\<close>

lemma runBuildCommand_performed:
  assumes "runBuildCommand H proj c perf w = Inr (perf', w')"
  shows "perf' = perf \<or> (\<exists>c' w1. perf' = perf @ [c'] \<and> Run H c' w1 = (None, w'))"
  using assms
  by (auto simp: runBuildCommand_def performBuildCommand_def Let_def
      split: prod.splits option.splits if_splits)

lemma runBuildCommand_failure:
  assumes "runBuildCommand H proj c perf w = Inl (err, w')"
  shows "\<exists>c' w1. Run H c' w1 = (Some err, w')"
  using assms
  by (auto simp: runBuildCommand_def performBuildCommand_def Let_def
      split: prod.splits option.splits if_splits)

text \<open>Whatever the loop over the planned commands adds to the performed commands was
  run, and its run succeeded.\<close>

lemma runBuildCommands_performed:
  "runBuildCommands H proj cs perf w = Inr (perf', w') \<Longrightarrow>
   \<exists>new. perf' = perf @ new \<and> (\<forall>c \<in> set new. \<exists>w1 w2. Run H c w1 = (None, w2))"
proof (induction cs arbitrary: perf w)
  case Nil
  then show ?case by simp
next
  case (Cons c cs)
  then obtain perf1 w1 where
    step: "runBuildCommand H proj c perf w = Inr (perf1, w1)" and
    rest: "runBuildCommands H proj cs perf1 w1 = Inr (perf', w')"
    by (auto split: sum.splits)
  from Cons.IH [OF rest] obtain new where
    new: "perf' = perf1 @ new" "\<forall>c \<in> set new. \<exists>w1 w2. Run H c w1 = (None, w2)"
    by blast
  from runBuildCommand_performed [OF step] show ?case
  proof
    assume "perf1 = perf"
    with new show ?thesis by blast
  next
    assume "\<exists>c' w0. perf1 = perf @ [c'] \<and> Run H c' w0 = (None, w1)"
    then obtain c' w0 where c': "perf1 = perf @ [c']" "Run H c' w0 = (None, w1)" by blast
    have "perf' = perf @ (c' # new)" using new c' by simp
    moreover have "\<forall>c \<in> set (c' # new). \<exists>w1 w2. Run H c w1 = (None, w2)"
      using new c' by auto
    ultimately show ?thesis by blast
  qed
qed

lemma runBuildCommands_failure:
  "runBuildCommands H proj cs perf w = Inl (err, w') \<Longrightarrow>
   \<exists>c w1. Run H c w1 = (Some err, w')"
proof (induction cs arbitrary: perf w)
  case Nil
  then show ?case by simp
next
  case (Cons c cs)
  then show ?case
    by (auto split: sum.splits dest: runBuildCommand_failure)
qed

text \<open>Both loops stop at the first failure: what they do on \<open>xs @ ys\<close> is what they do
  on \<open>xs\<close>, followed by \<open>ys\<close> only when \<open>xs\<close> went through.\<close>

lemma runBuildCommands_append:
  "runBuildCommands H proj (xs @ ys) perf w =
     (case runBuildCommands H proj xs perf w of
        Inl failure \<Rightarrow> Inl failure
      | Inr (perf1, w1) \<Rightarrow> runBuildCommands H proj ys perf1 w1)"
  by (induction xs arbitrary: perf w) (auto split: sum.splits)

lemma buildProjects_loop_append:
  "buildProjects_loop X builder configuration platform H (xs @ ys) warnings w =
     (case buildProjects_loop X builder configuration platform H xs warnings w of
        (warnings1, Some err, w1) \<Rightarrow> (warnings1, Some err, w1)
      | (warnings1, None, w1) \<Rightarrow>
          buildProjects_loop X builder configuration platform H ys warnings1 w1)"
  by (induction xs arbitrary: warnings w)
     (auto simp: Let_def split: sum.splits option.splits prod.splits)

lemma buildProjects_loop_failure:
  "buildProjects_loop X builder configuration platform H projs warnings w =
     (warnings', Some err, w') \<Longrightarrow>
   (\<exists>c w1. Run H c w1 = (Some err, w')) \<and> (\<exists>extra. warnings' = warnings @ extra)"
proof (induction projs arbitrary: warnings w)
  case Nil
  then show ?case by simp
next
  case (Cons proj projs)
  then show ?case
    by (fastforce simp: Let_def split: sum.splits option.splits prod.splits
        dest: runBuildCommands_failure)
qed

lemma BuildAllProjects_valid:
  assumes "validateSolutionConfig X (solution builder) configuration platform = None"
      and "fst (buildableProjects X builder configuration platform) = projs"
  shows "BuildAllProjects X builder configuration platform H w =
         buildProjects_loop X builder configuration platform H projs
           (snd (buildableProjects X builder configuration platform)) w"
proof (cases "buildableProjects X builder configuration platform")
  case (Pair buildable warnings)
  with assms show ?thesis
    by (cases projs) (simp_all add: BuildAllProjects_def)
qed

lemma performBuildCommand_success:
  "Run H c w = (None, w') \<Longrightarrow> performBuildCommand H c False perf w = Inr (perf @ [c], w')"
  by (simp add: performBuildCommand_def)

lemma performBuildCommand_failure:
  "Run H c w = (Some err, w') \<Longrightarrow> performBuildCommand H c False perf w = Inl (err, w')"
  by (simp add: performBuildCommand_def)

lemma runBuildCommands_abort:
  assumes "runBuildCommands H proj before perf w = Inr (perf1, w1)"
      and "runBuildCommand H proj c perf1 w1 = Inl failure"
  shows "runBuildCommands H proj (before @ c # rest) perf w = Inl failure"
  using assms by (simp add: runBuildCommands_append)

lemma buildProjects_loop_abort:
  assumes "buildProjects_loop X builder configuration platform H before warnings w =
             (warnings1, None, w1)"
      and "resolveConfig (ToConfig configuration platform) proj = Some projectConfig"
      and "runBuildCommands H proj
             (planBuildCommands X builder configuration platform proj projectConfig) [] w1 =
             Inl (err, w2)"
  shows "buildProjects_loop X builder configuration platform H (before @ proj # rest) warnings w =
           (warnings1, Some err, w2)"
  using assms
  by (auto simp: buildProjects_loop_append resolveConfig_def Let_def split: option.splits)

lemma BuildAllProjects_failure:
  assumes "BuildAllProjects X builder configuration platform H w = (warnings', Some err, w')"
      and "validateSolutionConfig X (solution builder) configuration platform = None"
  shows "(\<exists>c w1. Run H c w1 = (Some err, w')) \<and>
         (\<exists>extra. warnings' = snd (buildableProjects X builder configuration platform) @ extra)"
  using assms buildProjects_loop_failure
    [of X builder configuration platform H
        "fst (buildableProjects X builder configuration platform)"
        "snd (buildableProjects X builder configuration platform)" w warnings' err w']
  by (simp add: BuildAllProjects_valid [OF assms(2) refl])

text \<open>From a failing \<^verbatim>\<open>Run\<close> to a failing pass: the step returns the error of
  the run, and so does \<^verbatim>\<open>BuildAllProjects\<close>, wherever in the plan and in the list
  of projects the failing command stands.\<close>

lemma runBuildCommand_eq:
  "runBuildCommand H proj c perf w =
     performBuildCommand H (commandToRun H proj c w)
       (BuildCommandSliceContains perf (commandToRun H proj c w)) perf
       (worldAtRun H proj c perf w)"
  by (simp add: runBuildCommand_def commandToRun_def worldAtRun_def Let_def
      split: option.splits prod.splits)

lemma runBuildCommand_fails:
  assumes "\<not> BuildCommandSliceContains perf (commandToRun H proj c w)"
      and "Run H (commandToRun H proj c w) (worldAtRun H proj c perf w) = (Some err, w')"
  shows "runBuildCommand H proj c perf w = Inl (err, w')"
  using assms by (simp add: runBuildCommand_eq performBuildCommand_def)

lemma runBuildCommand_succeeds:
  assumes "\<not> BuildCommandSliceContains perf (commandToRun H proj c w)"
      and "Run H (commandToRun H proj c w) (worldAtRun H proj c perf w) = (None, w')"
  shows "runBuildCommand H proj c perf w = Inr (perf @ [commandToRun H proj c w], w')"
  using assms by (simp add: runBuildCommand_eq performBuildCommand_def)

lemma BuildAllProjects_fails:
  assumes valid: "validateSolutionConfig X (solution builder) configuration platform = None"
      and buildable: "fst (buildableProjects X builder configuration platform) = projs @ proj # others"
      and before: "buildProjects_loop X builder configuration platform H projs
                     (snd (buildableProjects X builder configuration platform)) w =
                     (warnings1, None, w1)"
      and resolved: "resolveConfig (ToConfig configuration platform) proj = Some projectConfig"
      and plan: "planBuildCommands X builder configuration platform proj projectConfig =
                   before @ c # rest"
      and ran: "runBuildCommands H proj before [] w1 = Inr (perf1, w2)"
      and fresh: "\<not> BuildCommandSliceContains perf1 (commandToRun H proj c w2)"
      and failed: "Run H (commandToRun H proj c w2) (worldAtRun H proj c perf1 w2) = (Some err, w3)"
  shows "BuildAllProjects X builder configuration platform H w = (warnings1, Some err, w3)"
proof -
  have step: "runBuildCommand H proj c perf1 w2 = Inl (err, w3)"
    by (rule runBuildCommand_fails [OF fresh failed])
  have "runBuildCommands H proj (before @ c # rest) [] w1 = Inl (err, w3)"
    by (rule runBuildCommands_abort [OF ran step])
  with plan have "runBuildCommands H proj
      (planBuildCommands X builder configuration platform proj projectConfig) [] w1 = Inl (err, w3)"
    by simp
  from buildProjects_loop_abort [OF before resolved this]
  show ?thesis
    by (simp add: BuildAllProjects_valid [OF valid buildable])
qed

text \<open>
  Claim C2. A command that was not already performed is appended to the performed
  commands when its \<^verbatim>\<open>Run\<close> has returned without error, and a failed \<^verbatim>\<open>Run\<close>
  returns the error instead; every command that the loop over a plan adds to the
  performed commands had a successful run. A failure stops the pass at once: the loop
  over the plan returns the failure whatever commands follow, the loop over the projects
  returns it whatever projects follow, with the warnings accumulated up to that project
  and the world as the failed run left it; and an error that \<^verbatim>\<open>BuildAllProjects\<close>
  returns after a successful validation is the error of a run that left the world as
  returned, beside warnings that extend those of \<^verbatim>\<open>buildableProjects\<close>. In the
  other direction: when the \<^verbatim>\<open>Run\<close> of a command that was not already performed
  fails, the pass of the loop body returns that error and appends nothing (and when it
  succeeds, the command is appended); and when that happens for any command of the plan
  of any buildable project, after the projects and commands before it went through,
  \<^verbatim>\<open>BuildAllProjects\<close> returns that error, with the warnings accumulated up to
  there and the world as the failed run left it, whatever commands and projects follow.
\<close>

theorem run_failure_aborts:
  "(Run H c w = (None, w') \<longrightarrow>
      performBuildCommand H c False perf w = Inr (perf @ [c], w')) \<and>
   (Run H c w = (Some err, w') \<longrightarrow>
      performBuildCommand H c False perf w = Inl (err, w')) \<and>
   (runBuildCommands H proj cs perf w = Inr (perf', w') \<longrightarrow>
      (\<exists>new. perf' = perf @ new \<and> (\<forall>c \<in> set new. \<exists>w1 w2. Run H c w1 = (None, w2)))) \<and>
   (runBuildCommands H proj before perf w = Inr (perf1, w1) \<and>
    runBuildCommand H proj c perf1 w1 = Inl failure \<longrightarrow>
      runBuildCommands H proj (before @ c # rest) perf w = Inl failure) \<and>
   (buildProjects_loop X builder configuration platform H projs warnings w =
      (warnings1, None, w1) \<and>
    resolveConfig (ToConfig configuration platform) proj = Some projectConfig \<and>
    runBuildCommands H proj
      (planBuildCommands X builder configuration platform proj projectConfig) [] w1 =
      Inl (err, w2) \<longrightarrow>
      buildProjects_loop X builder configuration platform H (projs @ proj # others) warnings w =
        (warnings1, Some err, w2)) \<and>
   (validateSolutionConfig X (solution builder) configuration platform = None \<and>
    BuildAllProjects X builder configuration platform H w = (warnings', Some err, w') \<longrightarrow>
      (\<exists>c w1. Run H c w1 = (Some err, w')) \<and>
      (\<exists>extra. warnings' = snd (buildableProjects X builder configuration platform) @ extra)) \<and>
   (\<not> BuildCommandSliceContains perf (commandToRun H proj c w) \<and>
    Run H (commandToRun H proj c w) (worldAtRun H proj c perf w) = (Some err, w') \<longrightarrow>
      runBuildCommand H proj c perf w = Inl (err, w')) \<and>
   (\<not> BuildCommandSliceContains perf (commandToRun H proj c w) \<and>
    Run H (commandToRun H proj c w) (worldAtRun H proj c perf w) = (None, w') \<longrightarrow>
      runBuildCommand H proj c perf w = Inr (perf @ [commandToRun H proj c w], w')) \<and>
   (validateSolutionConfig X (solution builder) configuration platform = None \<and>
    fst (buildableProjects X builder configuration platform) = projs @ proj # others \<and>
    buildProjects_loop X builder configuration platform H projs
      (snd (buildableProjects X builder configuration platform)) w = (warnings1, None, w1) \<and>
    resolveConfig (ToConfig configuration platform) proj = Some projectConfig \<and>
    planBuildCommands X builder configuration platform proj projectConfig = before @ c # rest \<and>
    runBuildCommands H proj before [] w1 = Inr (perf1, w2) \<and>
    \<not> BuildCommandSliceContains perf1 (commandToRun H proj c w2) \<and>
    Run H (commandToRun H proj c w2) (worldAtRun H proj c perf1 w2) = (Some err, w3) \<longrightarrow>
      BuildAllProjects X builder configuration platform H w = (warnings1, Some err, w3))"
proof (intro conjI impI)
  assume "Run H c w = (None, w')"
  then show "performBuildCommand H c False perf w = Inr (perf @ [c], w')"
    by (rule performBuildCommand_success)
next
  assume "Run H c w = (Some err, w')"
  then show "performBuildCommand H c False perf w = Inl (err, w')"
    by (rule performBuildCommand_failure)
next
  assume "runBuildCommands H proj cs perf w = Inr (perf', w')"
  then show "\<exists>new. perf' = perf @ new \<and> (\<forall>c \<in> set new. \<exists>w1 w2. Run H c w1 = (None, w2))"
    by (rule runBuildCommands_performed)
next
  assume "runBuildCommands H proj before perf w = Inr (perf1, w1) \<and>
          runBuildCommand H proj c perf1 w1 = Inl failure"
  then show "runBuildCommands H proj (before @ c # rest) perf w = Inl failure"
    by (simp add: runBuildCommands_abort)
next
  assume "buildProjects_loop X builder configuration platform H projs warnings w =
            (warnings1, None, w1) \<and>
          resolveConfig (ToConfig configuration platform) proj = Some projectConfig \<and>
          runBuildCommands H proj
            (planBuildCommands X builder configuration platform proj projectConfig) [] w1 =
            Inl (err, w2)"
  then show "buildProjects_loop X builder configuration platform H (projs @ proj # others)
               warnings w = (warnings1, Some err, w2)"
    by (simp add: buildProjects_loop_abort)
next
  assume "validateSolutionConfig X (solution builder) configuration platform = None \<and>
          BuildAllProjects X builder configuration platform H w = (warnings', Some err, w')"
  then have valid: "validateSolutionConfig X (solution builder) configuration platform = None"
    and failed: "BuildAllProjects X builder configuration platform H w = (warnings', Some err, w')"
    by simp_all
  note origin = BuildAllProjects_failure [OF failed valid]
  from origin show "\<exists>c w1. Run H c w1 = (Some err, w')" ..
  from origin show
    "\<exists>extra. warnings' = snd (buildableProjects X builder configuration platform) @ extra" ..
next
  assume "\<not> BuildCommandSliceContains perf (commandToRun H proj c w) \<and>
          Run H (commandToRun H proj c w) (worldAtRun H proj c perf w) = (Some err, w')"
  then show "runBuildCommand H proj c perf w = Inl (err, w')"
    by (simp add: runBuildCommand_fails)
next
  assume "\<not> BuildCommandSliceContains perf (commandToRun H proj c w) \<and>
          Run H (commandToRun H proj c w) (worldAtRun H proj c perf w) = (None, w')"
  then show "runBuildCommand H proj c perf w = Inr (perf @ [commandToRun H proj c w], w')"
    by (simp add: runBuildCommand_succeeds)
next
  assume "validateSolutionConfig X (solution builder) configuration platform = None \<and>
    fst (buildableProjects X builder configuration platform) = projs @ proj # others \<and>
    buildProjects_loop X builder configuration platform H projs
      (snd (buildableProjects X builder configuration platform)) w = (warnings1, None, w1) \<and>
    resolveConfig (ToConfig configuration platform) proj = Some projectConfig \<and>
    planBuildCommands X builder configuration platform proj projectConfig = before @ c # rest \<and>
    runBuildCommands H proj before [] w1 = Inr (perf1, w2) \<and>
    \<not> BuildCommandSliceContains perf1 (commandToRun H proj c w2) \<and>
    Run H (commandToRun H proj c w2) (worldAtRun H proj c perf1 w2) = (Some err, w3)"
  then show "BuildAllProjects X builder configuration platform H w = (warnings1, Some err, w3)"
    by (elim conjE) (rule BuildAllProjects_fails)
qed

text \<open>The first example: the library and the project without configuration give a
  warning each, the build of the application succeeds and its archive fails; the pass
  returns there, and the two projects behind the application leave no trace.\<close>

lemma failingSolution_pass:
  "BuildAllProjects exampleExternals failingSolution ''Release'' ''iPhone''
     (recordingHooks isArchive) [] =
   ([''project (Lib) does not archivable based on output type (library), skipping...'',
     ''project (Old) contains mapping for solution config (Release|iPhone), but does not have project configuration''],
    Some (Error ''exit status 1''),
    [Observed ''App'' (nativeBuild ''App'') False, Ran (nativeBuild ''App''),
     Observed ''App'' (nativeArchive ''App'') False, Ran (nativeArchive ''App'')])"
  by (simp add: failingSolution_def run_defs ex_defs cmd_defs)

text \<open>The second example, on the build-engine path and with a preparation hook that
  adds an option to every command: the Android package is built, the build of the
  solution for the iOS application fails. The hypotheses of the last part of the theorem
  are evaluated one by one; its conclusion is the result of the pass, which ends with
  the failed run and never reaches the tvOS project.\<close>

lemma brokenSolution_buildable:
  "buildableProjects exampleExternals brokenSolution ''Release'' ''iPhone'' =
     ([exampleProject ''Droid'' ProjectTypeAndroid ''library'' androidConfigs] @
      exampleProject ''App'' ProjectTypeIOS ''exe'' deviceConfigs #
      [exampleProject ''TV'' ProjectTypeTvOS ''exe'' deviceConfigs],
      [''project (Lib) does not archivable based on output type (library), skipping...''])"
  by (simp add: brokenSolution_def run_defs ex_defs)

lemma brokenSolution_before:
  "buildProjects_loop exampleExternals brokenSolution ''Release'' ''iPhone''
     (optionHooks isSolutionBuild)
     [exampleProject ''Droid'' ProjectTypeAndroid ''library'' androidConfigs]
     [''project (Lib) does not archivable based on output type (library), skipping...''] [] =
   ([''project (Lib) does not archivable based on output type (library), skipping...''],
    None, [Observed ''Droid'' droidPackage False, Ran droidPackage])"
  by (simp add: brokenSolution_def optionHooks_def isSolutionBuild_def droidPackage_def
      isPlatformAnyCPU_def toLower_def run_defs ex_defs cmd_defs)

theorem run_failure_aborts_witness:
  "BuildAllProjects exampleExternals failingSolution ''Release'' ''iPhone''
     (recordingHooks isArchive) [] =
   ([''project (Lib) does not archivable based on output type (library), skipping...'',
     ''project (Old) contains mapping for solution config (Release|iPhone), but does not have project configuration''],
    Some (Error ''exit status 1''),
    [Observed ''App'' (nativeBuild ''App'') False, Ran (nativeBuild ''App''),
     Observed ''App'' (nativeArchive ''App'') False, Ran (nativeArchive ''App'')]) \<and>
   (\<exists>c w1. Run (recordingHooks isArchive) c w1 =
      (Some (Error ''exit status 1''),
       [Observed ''App'' (nativeBuild ''App'') False, Ran (nativeBuild ''App''),
        Observed ''App'' (nativeArchive ''App'') False, Ran (nativeArchive ''App'')])) \<and>
   (\<exists>extra.
      [''project (Lib) does not archivable based on output type (library), skipping...'',
       ''project (Old) contains mapping for solution config (Release|iPhone), but does not have project configuration''] =
      snd (buildableProjects exampleExternals failingSolution ''Release'' ''iPhone'') @ extra) \<and>
   Run (optionHooks isSolutionBuild) quietSolutionBuild
     [Observed ''Droid'' droidPackage False, Ran droidPackage,
      Observed ''App'' quietSolutionBuild False] =
     (Some (Error ''exit status 1''),
      [Observed ''Droid'' droidPackage False, Ran droidPackage,
       Observed ''App'' quietSolutionBuild False, Ran quietSolutionBuild]) \<and>
   BuildAllProjects exampleExternals brokenSolution ''Release'' ''iPhone''
     (optionHooks isSolutionBuild) [] =
   ([''project (Lib) does not archivable based on output type (library), skipping...''],
    Some (Error ''exit status 1''),
    [Observed ''Droid'' droidPackage False, Ran droidPackage,
     Observed ''App'' quietSolutionBuild False, Ran quietSolutionBuild])"
proof -
  have valid: "validateSolutionConfig exampleExternals (solution failingSolution)
                 ''Release'' ''iPhone'' = None"
    by (simp add: exampleExternals_def)
  note origin = run_failure_aborts
    [where H = "recordingHooks isArchive" and X = exampleExternals
       and builder = failingSolution and configuration = "''Release''"
       and platform = "''iPhone''" and w = "[]" and err = "Error ''exit status 1''",
     THEN conjunct2, THEN conjunct2, THEN conjunct2, THEN conjunct2, THEN conjunct2,
     THEN conjunct1, THEN mp, OF conjI, OF valid failingSolution_pass]
  let ?app = "exampleProject ''App'' ProjectTypeIOS ''exe'' deviceConfigs"
  let ?H = "optionHooks isSolutionBuild"
  let ?w2 = "[Observed ''Droid'' droidPackage False, Ran droidPackage]"
  have command: "commandToRun ?H ?app solutionBuild ?w2 = quietSolutionBuild"
    by (simp add: commandToRun_def optionHooks_def quietSolutionBuild_def)
  have world: "worldAtRun ?H ?app solutionBuild [] ?w2 =
                 ?w2 @ [Observed ''App'' quietSolutionBuild False]"
    by (simp add: worldAtRun_def optionHooks_def quietSolutionBuild_def recordingHooks_def
        exampleProject_def)
  have run: "Run ?H quietSolutionBuild (?w2 @ [Observed ''App'' quietSolutionBuild False]) =
      (Some (Error ''exit status 1''),
       ?w2 @ [Observed ''App'' quietSolutionBuild False, Ran quietSolutionBuild])"
    by (simp add: optionHooks_def recordingHooks_def quietSolutionBuild_def solutionBuild_def
        isSolutionBuild_def)
  have hyps:
    "validateSolutionConfig exampleExternals (solution brokenSolution) ''Release'' ''iPhone'' = None \<and>
     fst (buildableProjects exampleExternals brokenSolution ''Release'' ''iPhone'') =
       [exampleProject ''Droid'' ProjectTypeAndroid ''library'' androidConfigs] @ ?app #
       [exampleProject ''TV'' ProjectTypeTvOS ''exe'' deviceConfigs] \<and>
     buildProjects_loop exampleExternals brokenSolution ''Release'' ''iPhone'' ?H
       [exampleProject ''Droid'' ProjectTypeAndroid ''library'' androidConfigs]
       (snd (buildableProjects exampleExternals brokenSolution ''Release'' ''iPhone'')) [] =
       ([''project (Lib) does not archivable based on output type (library), skipping...''],
        None, ?w2) \<and>
     resolveConfig (ToConfig ''Release'' ''iPhone'') ?app =
       Some (exampleConfig ''iPhone'' [''arm64''] False) \<and>
     planBuildCommands exampleExternals brokenSolution ''Release'' ''iPhone'' ?app
       (exampleConfig ''iPhone'' [''arm64''] False) = [] @ solutionBuild # [] \<and>
     runBuildCommands ?H ?app [] [] ?w2 = Inr ([], ?w2) \<and>
     \<not> BuildCommandSliceContains [] (commandToRun ?H ?app solutionBuild ?w2) \<and>
     Run ?H (commandToRun ?H ?app solutionBuild ?w2)
       (worldAtRun ?H ?app solutionBuild [] ?w2) =
       (Some (Error ''exit status 1''),
        ?w2 @ [Observed ''App'' quietSolutionBuild False, Ran quietSolutionBuild])"
  proof (intro conjI)
    show "validateSolutionConfig exampleExternals (solution brokenSolution)
            ''Release'' ''iPhone'' = None"
      by (simp add: exampleExternals_def)
    show "fst (buildableProjects exampleExternals brokenSolution ''Release'' ''iPhone'') =
       [exampleProject ''Droid'' ProjectTypeAndroid ''library'' androidConfigs] @ ?app #
       [exampleProject ''TV'' ProjectTypeTvOS ''exe'' deviceConfigs]"
      by (simp only: brokenSolution_buildable fst_conv)
    show "buildProjects_loop exampleExternals brokenSolution ''Release'' ''iPhone'' ?H
       [exampleProject ''Droid'' ProjectTypeAndroid ''library'' androidConfigs]
       (snd (buildableProjects exampleExternals brokenSolution ''Release'' ''iPhone'')) [] =
       ([''project (Lib) does not archivable based on output type (library), skipping...''],
        None, ?w2)"
      by (simp only: brokenSolution_buildable snd_conv brokenSolution_before)
    show "resolveConfig (ToConfig ''Release'' ''iPhone'') ?app =
            Some (exampleConfig ''iPhone'' [''arm64''] False)"
      by (simp add: resolveConfig_def ex_defs)
    show "planBuildCommands exampleExternals brokenSolution ''Release'' ''iPhone'' ?app
            (exampleConfig ''iPhone'' [''arm64''] False) = [] @ solutionBuild # []"
      by (simp add: brokenSolution_def run_defs ex_defs cmd_defs)
    show "runBuildCommands ?H ?app [] [] ?w2 = Inr ([], ?w2)"
      by simp
    show "\<not> BuildCommandSliceContains [] (commandToRun ?H ?app solutionBuild ?w2)"
      by simp
    show "Run ?H (commandToRun ?H ?app solutionBuild ?w2)
            (worldAtRun ?H ?app solutionBuild [] ?w2) =
          (Some (Error ''exit status 1''),
           ?w2 @ [Observed ''App'' quietSolutionBuild False, Ran quietSolutionBuild])"
      by (simp only: command world run)
  qed
  note aborted = run_failure_aborts
    [THEN conjunct2, THEN conjunct2, THEN conjunct2, THEN conjunct2, THEN conjunct2,
     THEN conjunct2, THEN conjunct2, THEN conjunct2, THEN mp, OF hyps]
  from failingSolution_pass origin run aborted show ?thesis by simp
qed

text \<open>
  Claim C9. When a buildable project is mapped for the solution configuration but has no
  project configuration under the mapped key, \<^verbatim>\<open>BuildAllProjects\<close> adds a warning
  and goes on with the projects behind it: its result is that of the projects before,
  if one of them failed, and otherwise that of the projects behind, started with the
  warning appended and in the world the projects before left. The project itself
  contributes no hook call and no run.
\<close>

theorem missing_project_config_skipped:
  assumes valid: "validateSolutionConfig X (solution builder) configuration platform = None"
      and buildable: "fst (buildableProjects X builder configuration platform) = before @ proj # rest"
      and mapped: "ConfigMap proj (ToConfig configuration platform) = Some projectConfigKey"
      and missing: "Configs proj projectConfigKey = None"
  shows "BuildAllProjects X builder configuration platform H w =
     (case buildProjects_loop X builder configuration platform H before
             (snd (buildableProjects X builder configuration platform)) w of
        (warnings, Some err, w1) \<Rightarrow> (warnings, Some err, w1)
      | (warnings, None, w1) \<Rightarrow>
          buildProjects_loop X builder configuration platform H rest
            (warnings @ [noProjectConfigWarning proj (ToConfig configuration platform)]) w1)"
proof -
  have skip: "buildProjects_loop X builder configuration platform H (proj # rest) warnings w1 =
      buildProjects_loop X builder configuration platform H rest
        (warnings @ [noProjectConfigWarning proj (ToConfig configuration platform)]) w1"
    for warnings w1
    using mapped missing by (simp add: Let_def)
  show ?thesis
    unfolding BuildAllProjects_valid [OF valid buildable] buildProjects_loop_append
    by (simp only: skip)
qed

theorem missing_project_config_skipped_witness:
  "BuildAllProjects exampleExternals staleSolution ''Release'' ''iPhone''
     (recordingHooks (\<lambda>command. False)) [] =
   ([''project (Stale) contains mapping for solution config (Release|iPhone), but does not have project configuration''],
    None,
    [Observed ''App'' solutionBuild False, Ran solutionBuild])"
proof -
  have valid: "validateSolutionConfig exampleExternals (solution staleSolution)
                 ''Release'' ''iPhone'' = None"
    by (simp add: exampleExternals_def)
  have buildable: "fst (buildableProjects exampleExternals staleSolution ''Release'' ''iPhone'') =
      [] @ exampleProject ''Stale'' ProjectTypeIOS ''exe'' Map.empty #
      [exampleProject ''App'' ProjectTypeIOS ''exe'' deviceConfigs]"
    by (simp add: staleSolution_def run_defs ex_defs)
  have mapped: "ConfigMap (exampleProject ''Stale'' ProjectTypeIOS ''exe'' Map.empty)
                  (ToConfig ''Release'' ''iPhone'') = Some ''Release|iPhone''"
    by (simp add: ex_defs)
  have missing: "Configs (exampleProject ''Stale'' ProjectTypeIOS ''exe'' Map.empty)
                   ''Release|iPhone'' = None"
    by (simp add: ex_defs)
  have warnings: "snd (buildableProjects exampleExternals staleSolution ''Release'' ''iPhone'') = []"
    by (simp add: staleSolution_def run_defs ex_defs)
  show ?thesis
    unfolding missing_project_config_skipped [OF valid buildable mapped missing] warnings
    by (simp add: staleSolution_def run_defs ex_defs cmd_defs)
qed

text \<open>Inside one plan no command equals an earlier one, so the test against the
  performed commands, which start empty for every project, cannot succeed unless a
  preparation hook rewrites a command.\<close>

lemma planned_commands_differ:
  "planBuildCommands X builder configuration platform proj projectConfig = before @ c # rest \<Longrightarrow>
   \<not> BuildCommandSliceContains before c"
  by (auto simp: planBuildCommands_def cmd_defs Let_def Cons_eq_append_conv append_eq_Cons_conv
      split: if_splits)

text \<open>
  Claim C1. The claim is that the performed commands are kept for the whole pass, so
  that a command planned for a later project and equal to one already run is reported
  as already performed and run only once. The code declares the list inside the loop
  over the projects. Here two iOS projects of one solution both plan \<open>solutionBuild\<close>:
  the observation hook is told \<open>False\<close> for the second occurrence too, and the command
  is run twice.
\<close>

theorem performed_commands_reset_per_project:
  "BuildCommandSliceContains [solutionBuild] solutionBuild \<and>
   BuildAllProjects exampleExternals twinSolution ''Release'' ''iPhone''
     (recordingHooks (\<lambda>command. False)) [] =
   ([], None, [Observed ''A'' solutionBuild False, Ran solutionBuild,
               Observed ''B'' solutionBuild False, Ran solutionBuild])"
  by (simp add: twinSolution_def run_defs ex_defs cmd_defs)

section \<open>The output collector\<close>

lemma storeProbe_nonempty:
  "storeProbe probe kind m = Inr m' \<Longrightarrow> (m' \<noteq> []) = (m \<noteq> [] \<or> nonEmptyPath probe)"
  by (auto simp: storeProbe_def nonEmptyPath_def split: sum.splits if_splits)

text \<open>The artifact map of a project type gains an entry from a project exactly when one
  of the project's probes found something.\<close>

lemma collectProjectOutput_nonempty:
  assumes "collectProjectOutput X builder proj projectConfig m = Inr m'"
  shows "(m' \<noteq> []) = (m \<noteq> [] \<or> artifactFound X builder proj projectConfig)"
proof (cases "ProjectType proj")
  case ProjectTypeUnknown
  with assms show ?thesis by (simp add: collectProjectOutput_def artifactFound_def)
next
  case ProjectTypeIOS
  with assms show ?thesis
    by (auto simp: collectProjectOutput_def artifactFound_def split: sum.splits
        dest!: storeProbe_nonempty)
next
  case ProjectTypeTvOS
  with assms show ?thesis
    by (auto simp: collectProjectOutput_def artifactFound_def split: sum.splits
        dest!: storeProbe_nonempty)
next
  case ProjectTypeMacOS
  with assms show ?thesis
    by (auto simp: collectProjectOutput_def artifactFound_def split: sum.splits if_splits
        dest!: storeProbe_nonempty)
next
  case ProjectTypeAndroid
  with assms show ?thesis
    by (auto simp: collectProjectOutput_def artifactFound_def split: sum.splits
        dest!: storeProbe_nonempty)
qed

lemma collectOutput_step:
  assumes inv: "entriesNonEmpty acc"
      and run: "collectProjectOutput X builder proj projectConfig
                  (case map_of acc (ProjectType proj) of None \<Rightarrow> [] | Some m \<Rightarrow> m) = Inr m1"
  shows "entriesNonEmpty (if length m1 > 0 then AList.update (ProjectType proj) m1 acc else acc)"
    and "(map_of (if length m1 > 0 then AList.update (ProjectType proj) m1 acc else acc) t \<noteq> None) =
         (map_of acc t \<noteq> None \<or>
          (t = ProjectType proj \<and> artifactFound X builder proj projectConfig))"
proof -
  show "entriesNonEmpty (if length m1 > 0 then AList.update (ProjectType proj) m1 acc else acc)"
    using inv by (auto simp: entriesNonEmpty_def update_conv')
  have "(m1 \<noteq> []) =
        ((case map_of acc (ProjectType proj) of None \<Rightarrow> [] | Some m \<Rightarrow> m) \<noteq> [] \<or>
         artifactFound X builder proj projectConfig)"
    by (rule collectProjectOutput_nonempty [OF run])
  moreover have "((case map_of acc (ProjectType proj) of None \<Rightarrow> [] | Some m \<Rightarrow> m) \<noteq> []) =
                 (map_of acc (ProjectType proj) \<noteq> None)"
    using inv by (auto simp: entriesNonEmpty_def split: option.splits)
  ultimately show "(map_of (if length m1 > 0 then AList.update (ProjectType proj) m1 acc else acc) t \<noteq> None) =
         (map_of acc t \<noteq> None \<or>
          (t = ProjectType proj \<and> artifactFound X builder proj projectConfig))"
    by (auto simp: update_conv')
qed

lemma collectOutput_loop_keys:
  assumes "collectOutput_loop X builder sc projs acc = Inr out"
      and "entriesNonEmpty acc"
  shows "entriesNonEmpty out \<and>
         (\<forall>t. (map_of out t \<noteq> None) =
              (map_of acc t \<noteq> None \<or>
               (\<exists>proj \<in> set projs. \<exists>projectConfig.
                  resolveConfig sc proj = Some projectConfig \<and> ProjectType proj = t \<and>
                  artifactFound X builder proj projectConfig)))"
  using assms
proof (induction projs arbitrary: acc)
  case Nil
  then show ?case by simp
next
  case (Cons proj projs)
  show ?case
  proof (cases "resolveConfig sc proj")
    case None
    then have "collectOutput_loop X builder sc (proj # projs) acc =
               collectOutput_loop X builder sc projs acc"
      by (auto simp: resolveConfig_def split: option.splits)
    with Cons.prems Cons.IH [of acc] None show ?thesis by auto
  next
    case (Some projectConfig)
    let ?m0 = "case map_of acc (ProjectType proj) of None \<Rightarrow> [] | Some m \<Rightarrow> m"
    from Some Cons.prems(1) obtain m1 where
      run: "collectProjectOutput X builder proj projectConfig ?m0 = Inr m1" and
      rest: "collectOutput_loop X builder sc projs
               (if length m1 > 0 then AList.update (ProjectType proj) m1 acc else acc) = Inr out"
      by (auto simp: resolveConfig_def Let_def split: option.splits sum.splits)
    let ?acc = "if length m1 > 0 then AList.update (ProjectType proj) m1 acc else acc"
    note step = collectOutput_step [OF Cons.prems(2) run]
    from Cons.IH [OF rest step(1)] have
      out: "entriesNonEmpty out"
      "\<And>t. (map_of out t \<noteq> None) =
              (map_of ?acc t \<noteq> None \<or>
               (\<exists>proj \<in> set projs. \<exists>projectConfig.
                  resolveConfig sc proj = Some projectConfig \<and> ProjectType proj = t \<and>
                  artifactFound X builder proj projectConfig))"
      by blast+
    show ?thesis
    proof (intro conjI allI)
      show "entriesNonEmpty out" by (rule out(1))
    next
      fix t
      show "(map_of out t \<noteq> None) =
              (map_of acc t \<noteq> None \<or>
               (\<exists>p \<in> set (proj # projs). \<exists>projectConfig.
                  resolveConfig sc p = Some projectConfig \<and> ProjectType p = t \<and>
                  artifactFound X builder p projectConfig))"
        unfolding out(2) [of t] step(2) [of t] using Some by auto
    qed
  qed
qed

lemma collectOutput_loop_distinct:
  "collectOutput_loop X builder sc projs acc = Inr out \<Longrightarrow> distinct (map fst acc) \<Longrightarrow>
   distinct (map fst out)"
  by (induction projs arbitrary: acc)
     (auto simp: Let_def distinct_update split: option.splits sum.splits if_splits)

text \<open>
  Claim C8. When \<^verbatim>\<open>CollectOutput\<close> returns without error, a project type is a key
  of the returned output map exactly when, for some buildable project of that type whose
  configuration resolves, at least one artifact probe returned a non-empty path; and no
  project type is mapped to an empty artifact map. (The keys of the list are distinct,
  so it is a map.)
\<close>

theorem output_map_keys:
  assumes "CollectOutput X builder configuration platform = Inr outputMap"
  shows "(\<forall>t. (map_of outputMap t \<noteq> None) =
            (\<exists>proj \<in> set (fst (buildableProjects X builder configuration platform)).
               \<exists>projectConfig.
                 resolveConfig (ToConfig configuration platform) proj = Some projectConfig \<and>
                 ProjectType proj = t \<and> artifactFound X builder proj projectConfig)) \<and>
         (\<forall>t m. map_of outputMap t = Some m \<longrightarrow> m \<noteq> []) \<and>
         distinct (map fst outputMap)"
proof -
  from assms have loop:
    "collectOutput_loop X builder (ToConfig configuration platform)
       (fst (buildableProjects X builder configuration platform)) [] = Inr outputMap"
    by (simp add: CollectOutput_def Let_def split: prod.splits)
  have "entriesNonEmpty []" by (simp add: entriesNonEmpty_def)
  from collectOutput_loop_keys [OF loop this] collectOutput_loop_distinct [OF loop]
  show ?thesis by (simp add: entriesNonEmpty_def)
qed

lemma mixedSolution_output:
  "CollectOutput exampleExternals mixedSolution ''Release'' ''iPhone'' =
     Inr [(ProjectTypeIOS, [(OutputTypeIPA, ''bin/Release/App.iOS.ipa'')])]"
  by (simp add: CollectOutput_def mixedSolution_def run_defs ex_defs collectProjectOutput_def
      storeProbe_def)

theorem output_map_keys_witness:
  "CollectOutput exampleExternals mixedSolution ''Release'' ''iPhone'' =
     Inr [(ProjectTypeIOS, [(OutputTypeIPA, ''bin/Release/App.iOS.ipa'')])] \<and>
   (\<exists>proj \<in> set (fst (buildableProjects exampleExternals mixedSolution ''Release'' ''iPhone'')).
      \<exists>projectConfig.
        resolveConfig (ToConfig ''Release'' ''iPhone'') proj = Some projectConfig \<and>
        ProjectType proj = ProjectTypeIOS \<and>
        artifactFound exampleExternals mixedSolution proj projectConfig) \<and>
   \<not> (\<exists>proj \<in> set (fst (buildableProjects exampleExternals mixedSolution ''Release'' ''iPhone'')).
      \<exists>projectConfig.
        resolveConfig (ToConfig ''Release'' ''iPhone'') proj = Some projectConfig \<and>
        ProjectType proj = ProjectTypeAndroid \<and>
        artifactFound exampleExternals mixedSolution proj projectConfig)"
proof -
  note keys = output_map_keys [OF mixedSolution_output, THEN conjunct1, rule_format]
  from keys [of ProjectTypeIOS] keys [of ProjectTypeAndroid] mixedSolution_output
  show ?thesis by simp
qed

end
